theory Spec2Isabelle
  imports Main "HOL-Library.AList"
begin

section \<open>JavaScript values of the mention extension\<close>

text \<open>
  The attributes of a mention node are typed \<open>id: string | null\<close> and
  \<open>label?: string | null\<close> (interface \<open>MentionNodeAttrs\<close>), and the trigger character is
  typed \<open>char?: string\<close>. A value of these types is undefined, null or a string.
\<close>

datatype js_val = JUndefined | JNull | JStr string

text \<open>What a template literal \<open>`${v}`\<close> puts into the string.\<close>

fun template :: "js_val \<Rightarrow> string" where
  "template JUndefined = ''undefined''"
| "template JNull = ''null''"
| "template (JStr s) = s"

text \<open>Truthiness, as tested by \<open>!v\<close> and \<open>v || w\<close>: the empty string is falsy.\<close>

fun truthy :: "js_val \<Rightarrow> bool" where
  "truthy JUndefined = False"
| "truthy JNull = False"
| "truthy (JStr s) = (s \<noteq> [])"

text \<open>The nullish coalescing operator \<open>a ?? b\<close>.\<close>

fun nullish :: "js_val \<Rightarrow> js_val \<Rightarrow> js_val" where
  "nullish JUndefined b = b"
| "nullish JNull b = b"
| "nullish (JStr s) b = JStr s"

record MentionNodeAttrs =
  attrs_id :: js_val
  attrs_label :: js_val

section \<open>HTML attribute objects and mergeAttributes\<close>

text \<open>
  An attribute object is a JavaScript object with string keys: an association list in
  insertion order. Assigning to a key that is present keeps its place, assigning to a new key
  appends it (\<open>AList.update\<close>). Values are strings.
\<close>

type_synonym html_attrs = "(string \<times> string) list"

fun split_on :: "char \<Rightarrow> string \<Rightarrow> string list" where
  "split_on c [] = [[]]"
| "split_on c (x # xs) =
     (if x = c then [] # split_on c xs
      else (case split_on c xs of
              [] \<Rightarrow> [[x]]
            | w # ws \<Rightarrow> (x # w) # ws))"

fun join :: "string \<Rightarrow> string list \<Rightarrow> string" where
  "join sep [] = []"
| "join sep [w] = w"
| "join sep (w # v # ws) = w @ sep @ join sep (v # ws)"

text \<open>
  \<open>mergeAttributes\<close> is imported from \<open>@tiptap/core\<close>. It folds the objects from left to
  right into one object, assigning every entry of every object to its key. A key whose
  present value is missing or falsy takes the new value. A \<open>class\<close> key keeps the classes
  present and appends the new ones that are not among them, a \<open>style\<close> key joins both
  values, and any other key takes the new value.
\<close>

definition merge_value :: "string \<Rightarrow> string option \<Rightarrow> string \<Rightarrow> string" where
  "merge_value key exists val =
     (case exists of
        None \<Rightarrow> val
      | Some existing \<Rightarrow>
          if existing = [] then val
          else if key = ''class'' then
            (let valueClasses = (if val = [] then [] else split_on CHR '' '' val);
                 existingClasses = split_on CHR '' '' existing;
                 insertClasses = filter (\<lambda>c. c \<notin> set existingClasses) valueClasses
             in join '' '' (existingClasses @ insertClasses))
          else if key = ''style'' then join ''; '' [existing, val]
          else val)"

definition merge_entry :: "html_attrs \<Rightarrow> string \<times> string \<Rightarrow> html_attrs" where
  "merge_entry merged kv =
     AList.update (fst kv) (merge_value (fst kv) (map_of merged (fst kv)) (snd kv)) merged"

definition mergeAttributes :: "html_attrs list \<Rightarrow> html_attrs" where
  "mergeAttributes objects =
     fold (\<lambda>item items. fold (\<lambda>kv merged. merge_entry merged kv) item items) objects []"

section \<open>Options of the extension\<close>

text \<open>
  \<open>MentionOptions\<close>. The render callbacks receive \<open>{ options, node }\<close>; what they can read of
  the options are its data fields, which form the record \<open>option_values\<close>. The callbacks
  themselves extend that record. \<open>renderHTML\<close> is called as a method of the options object, so
  its first argument is its receiver \<open>this\<close>. \<open>renderLabel\<close> is optional.
\<close>

record option_values =
  HTMLAttributes :: html_attrs
  deleteTriggerWithBackspace :: bool
  suggestion_char :: js_val

record render_props =
  options :: option_values
  node :: MentionNodeAttrs

datatype DOMOutputSpec =
  DomString string
| DomElem string html_attrs "DOMOutputSpec list"

record mention_options = option_values +
  renderLabel :: "(render_props \<Rightarrow> string) option"
  renderText :: "render_props \<Rightarrow> string"
  renderHTML :: "option_values \<Rightarrow> render_props \<Rightarrow> DOMOutputSpec"

definition getHrefFromNode :: "MentionNodeAttrs \<Rightarrow> string" where
  "getHrefFromNode n = ''/thoughts/'' @ template (attrs_id n)"

text \<open>The defaults returned by \<open>addOptions\<close>.\<close>

definition addOptions_renderText :: "render_props \<Rightarrow> string" where
  "addOptions_renderText p =
     template (suggestion_char (options p))
       @ template (nullish (attrs_label (node p)) (attrs_id (node p)))"

definition addOptions_renderHTML :: "option_values \<Rightarrow> render_props \<Rightarrow> DOMOutputSpec" where
  "addOptions_renderHTML this p =
     DomElem ''a''
       (mergeAttributes
          [[(''class'', ''mention''), (''href'', getHrefFromNode (node p))],
           HTMLAttributes this,
           HTMLAttributes (options p)])
       [DomString (template (suggestion_char (options p))
          @ template (nullish (attrs_label (node p)) (attrs_id (node p))))]"

definition addOptions :: mention_options where
  "addOptions =
     \<lparr> HTMLAttributes = [],
       deleteTriggerWithBackspace = False,
       suggestion_char = JStr ''@'',
       renderLabel = None,
       renderText = addOptions_renderText,
       renderHTML = addOptions_renderHTML \<rparr>"

section \<open>Attributes of the node type\<close>

text \<open>\<open>addAttributes\<close>: how \<open>id\<close> and \<open>label\<close> are written as HTML attributes.\<close>

definition id_renderHTML :: "MentionNodeAttrs \<Rightarrow> html_attrs" where
  "id_renderHTML attributes =
     (if \<not> truthy (attrs_id attributes) then []
      else [(''data-id'', template (attrs_id attributes))])"

definition label_renderHTML :: "MentionNodeAttrs \<Rightarrow> html_attrs" where
  "label_renderHTML attributes =
     (if \<not> truthy (attrs_label attributes) then []
      else [(''data-label'', template (attrs_label attributes))])"

text \<open>
  When a node is serialized the editor core merges what the attributes' \<open>renderHTML\<close>
  functions return, in the order of \<open>addAttributes\<close>, and hands the result to the node type's
  \<open>renderHTML\<close> as \<open>HTMLAttributes\<close>.
\<close>

definition getRenderedAttributes :: "MentionNodeAttrs \<Rightarrow> html_attrs" where
  "getRenderedAttributes n = mergeAttributes [id_renderHTML n, label_renderHTML n]"

section \<open>Rendering\<close>

text \<open>The console is the list of the warnings written so far.\<close>

type_synonym console = "string list"

definition deprecation_warning :: string where
  "deprecation_warning = ''renderLabel is deprecated use renderText and renderHTML instead''"

definition Mention_renderHTML ::
  "mention_options \<Rightarrow> MentionNodeAttrs \<Rightarrow> html_attrs \<Rightarrow> console \<Rightarrow> DOMOutputSpec \<times> console" where
  "Mention_renderHTML opts n attrs out =
     (case renderLabel opts of
        Some renderLabel_fn \<Rightarrow>
          (DomElem ''a''
             (mergeAttributes [[(''data-type'', ''mention'')], HTMLAttributes opts, attrs])
             [DomString (renderLabel_fn \<lparr> options = option_values.truncate opts, node = n \<rparr>)],
           out @ [deprecation_warning])
      | None \<Rightarrow>
          (let mergedOptions = (option_values.truncate opts)
                 \<lparr> HTMLAttributes :=
                     mergeAttributes [[(''data-type'', ''mention'')], HTMLAttributes opts, attrs] \<rparr>;
               html = renderHTML opts (option_values.truncate opts)
                        \<lparr> options = mergedOptions, node = n \<rparr>
           in case html of
                DomString s \<Rightarrow>
                  (DomElem ''a''
                     (mergeAttributes [[(''data-type'', ''mention'')], HTMLAttributes opts, attrs])
                     [DomString s],
                   out)
              | DomElem tag as cs \<Rightarrow> (html, out)))"

definition Mention_renderText ::
  "mention_options \<Rightarrow> MentionNodeAttrs \<Rightarrow> console \<Rightarrow> string \<times> console" where
  "Mention_renderText opts n out =
     (case renderLabel opts of
        Some renderLabel_fn \<Rightarrow>
          (renderLabel_fn \<lparr> options = option_values.truncate opts, node = n \<rparr>,
           out @ [deprecation_warning])
      | None \<Rightarrow>
          (renderText opts \<lparr> options = option_values.truncate opts, node = n \<rparr>, out))"

text \<open>The markup of a node: the node type's \<open>renderHTML\<close> on the rendered attributes.\<close>

definition serialize_markup ::
  "mention_options \<Rightarrow> MentionNodeAttrs \<Rightarrow> console \<Rightarrow> DOMOutputSpec \<times> console" where
  "serialize_markup opts n out = Mention_renderHTML opts n (getRenderedAttributes n) out"

section \<open>Markdown storage\<close>

text \<open>
  \<open>addStorage().markdown\<close>. The serializer state is the text written so far;
  \<open>state.write\<close> appends to it. The parse specification is an object with no entry.
\<close>

definition markdown_serialize :: "string \<Rightarrow> MentionNodeAttrs \<Rightarrow> string" where
  "markdown_serialize state n =
     state @ (''[@'' @ template (nullish (attrs_label n) (attrs_id n))
                @ '']('' @ getHrefFromNode n @ '')'')"

definition markdown_parse :: "(string \<times> string) list" where
  "markdown_parse = []"

section \<open>The document and the editor state\<close>

text \<open>
  The editor library addresses a document by integer positions that index its sequence of
  tokens: the start and the end of a node with content count one each, and so do a character
  and a leaf node. The document is that sequence; every index from 0 to its length is a
  position. The mention type is an inline leaf (\<open>inline: true\<close>, \<open>atom: true\<close>), so a mention
  node is the token \<open>Leaf ''mention'' attrs\<close> and its \<open>nodeSize\<close> is 1. Marks are not
  represented.
\<close>

datatype token = Open string | Close | Chr char | Leaf string MentionNodeAttrs

datatype pm_node = TextNode string | LeafNode string MentionNodeAttrs | BlockNode string nat

fun type_name :: "pm_node \<Rightarrow> string" where
  "type_name (TextNode t) = ''text''"
| "type_name (LeafNode name a) = name"
| "type_name (BlockNode name n) = name"

fun nodeSize :: "pm_node \<Rightarrow> nat" where
  "nodeSize (TextNode t) = length t"
| "nodeSize (LeafNode name a) = 1"
| "nodeSize (BlockNode name n) = n"

fun inline :: "token \<Rightarrow> bool" where
  "inline (Chr c) = True"
| "inline (Leaf name a) = True"
| "inline (Open name) = False"
| "inline Close = False"

datatype error = RangeError

record suggestion_range =
  range_from :: nat
  range_to :: nat

text \<open>
  A schema gives every node type the start state of the automaton of its content expression
  (\<open>type.contentMatch\<close>); \<open>matchType\<close> is the automaton's transition on a node type, with
  \<open>None\<close> for JavaScript's \<open>null\<close>, and \<open>validEnd\<close> tells whether the content may end in
  a state.
\<close>

record Schema =
  contentMatch :: "string \<Rightarrow> nat"
  matchType :: "nat \<Rightarrow> string \<Rightarrow> nat option"
  validEnd :: "nat \<Rightarrow> bool"

record EditorState =
  doc :: "token list"
  anchor :: nat
  head :: nat
  schema :: Schema

subsection \<open>Positions\<close>

text \<open>The types of the nodes that are open after a prefix of the document, innermost first.\<close>

fun open_nodes :: "token list \<Rightarrow> string list \<Rightarrow> string list" where
  "open_nodes [] stack = stack"
| "open_nodes (Open name # ts) stack = open_nodes ts (name # stack)"
| "open_nodes (Close # ts) stack = open_nodes ts (tl stack)"
| "open_nodes (Chr c # ts) stack = open_nodes ts stack"
| "open_nodes (Leaf name a # ts) stack = open_nodes ts stack"

text \<open>
  \<open>doc.resolve(pos).parent.type\<close>: the innermost node that contains the position, the
  document node itself at the top. A position outside the document raises a RangeError.
\<close>

definition resolve_parent :: "token list \<Rightarrow> nat \<Rightarrow> error + string" where
  "resolve_parent d pos =
     (if pos > length d then Inl RangeError
      else Inr (case open_nodes (take pos d) [] of [] \<Rightarrow> ''doc'' | name # outer \<Rightarrow> name))"

fun text_run :: "token list \<Rightarrow> string" where
  "text_run (Chr c # ts) = c # text_run ts"
| "text_run ts = []"

text \<open>The number of tokens up to the end token of the node entered at the given depth.\<close>

fun block_end :: "token list \<Rightarrow> nat \<Rightarrow> nat" where
  "block_end [] depth = 0"
| "block_end (Open name # ts) depth = Suc (block_end ts (Suc depth))"
| "block_end (Close # ts) depth = (if depth = 0 then 1 else Suc (block_end ts (depth - 1)))"
| "block_end (Chr c # ts) depth = Suc (block_end ts depth)"
| "block_end (Leaf name a # ts) depth = Suc (block_end ts depth)"

text \<open>
  \<open>$pos.nodeAfter\<close>: the node directly after the position, if any. Inside a text node it is
  the part of that node after the position.
\<close>

definition nodeAfter :: "token list \<Rightarrow> nat \<Rightarrow> pm_node option" where
  "nodeAfter d pos =
     (case drop pos d of
        [] \<Rightarrow> None
      | Chr c # ts \<Rightarrow> Some (TextNode (c # text_run ts))
      | Leaf name a # ts \<Rightarrow> Some (LeafNode name a)
      | Open name # ts \<Rightarrow> Some (BlockNode name (Suc (block_end ts 0)))
      | Close # ts \<Rightarrow> None)"

text \<open>
  \<open>doc.nodesBetween(from, to, f)\<close> calls \<open>f\<close> on the nodes that overlap the range, with the
  position where each starts. The list holds the inline nodes among them, a text node
  character by character. The enclosing nodes, which the library visits first, are left out:
  the only callback in this development tests for the mention type, which is an inline leaf.
\<close>

definition nodesBetween :: "token list \<Rightarrow> int \<Rightarrow> int \<Rightarrow> (pm_node \<times> nat) list" where
  "nodesBetween d from_pos to_pos =
     concat (map (\<lambda>pos. case d ! pos of
                          Chr c \<Rightarrow> [(TextNode [c], pos)]
                        | Leaf name a \<Rightarrow> [(LeafNode name a, pos)]
                        | Open name \<Rightarrow> []
                        | Close \<Rightarrow> [])
               [nat (max 0 from_pos) ..< min (nat to_pos) (length d)])"

subsection \<open>Transactions\<close>

text \<open>
  How a replacement of the tokens from \<open>from_pos\<close> to \<open>to_pos\<close> by \<open>newSize\<close> tokens maps
  a position (the step map of the library, with its default bias to the right).
\<close>

definition map_pos :: "nat \<Rightarrow> nat \<Rightarrow> nat \<Rightarrow> nat \<Rightarrow> nat" where
  "map_pos from_pos to_pos newSize pos =
     (if pos < from_pos then pos
      else if pos \<le> to_pos then
        (if from_pos < to_pos \<and> pos = from_pos then from_pos else from_pos + newSize)
      else pos - (to_pos - from_pos) + newSize)"

text \<open>
  \<open>tr.insertText(text, from, to)\<close> replaces the range by a text node, or deletes it when the
  text is empty, and maps the selection through the step. A transaction is represented by the
  state it leads to. The range of the one call in this development is a leaf node inside a
  textblock; the textblock is taken to admit text and to admit being empty, as a paragraph
  does.
\<close>

definition insertText :: "EditorState \<Rightarrow> string \<Rightarrow> nat \<Rightarrow> nat \<Rightarrow> EditorState" where
  "insertText tr text from_pos to_pos =
     tr \<lparr> doc := take from_pos (doc tr) @ map Chr text @ drop to_pos (doc tr),
          anchor := map_pos from_pos to_pos (length text) (anchor tr),
          head := map_pos from_pos to_pos (length text) (head tr) \<rparr>"

subsection \<open>Replacing a range by nodes\<close>

text \<open>
  The node type creates a node from given attributes by filling in, for every attribute
  that is undefined, the default declared in \<open>addAttributes\<close>, which is null for \<open>id\<close> and
  for \<open>label\<close>. \<open>createNodeFromContent\<close> of the editor core creates the nodes of a content
  that is given as JSON.
\<close>

definition computeAttrs :: "MentionNodeAttrs \<Rightarrow> MentionNodeAttrs" where
  "computeAttrs given =
     \<lparr> attrs_id = (if attrs_id given = JUndefined then JNull else attrs_id given),
       attrs_label = (if attrs_label given = JUndefined then JNull else attrs_label given) \<rparr>"

fun createNodeFromContent :: "token list \<Rightarrow> token list" where
  "createNodeFromContent [] = []"
| "createNodeFromContent (Leaf name a # ts) =
     (if name = ''mention'' then Leaf name (computeAttrs a) else Leaf name a)
       # createNodeFromContent ts"
| "createNodeFromContent (t # ts) = t # createNodeFromContent ts"

text \<open>
  The inline tokens directly before and directly after a position, and the types of the
  child nodes that a sequence of inline tokens makes: a run of characters is one text node.
\<close>

definition inline_before :: "token list \<Rightarrow> nat \<Rightarrow> token list" where
  "inline_before d pos = rev (takeWhile inline (rev (take pos d)))"

definition inline_after :: "token list \<Rightarrow> nat \<Rightarrow> token list" where
  "inline_after d pos = takeWhile inline (drop pos d)"

fun is_text :: "token \<Rightarrow> bool" where
  "is_text (Chr c) = True"
| "is_text t = False"

fun child_types :: "token list \<Rightarrow> string list" where
  "child_types [] = []"
| "child_types (Chr c # Chr c' # ts) = child_types (Chr c' # ts)"
| "child_types (Chr c # ts) = ''text'' # child_types ts"
| "child_types (Leaf name a # ts) = name # child_types ts"
| "child_types (t # ts) = child_types ts"

text \<open>\<open>match.matchFragment\<close>: the automaton run over the types of a sequence of nodes.\<close>

fun matchFragment :: "Schema \<Rightarrow> nat \<Rightarrow> string list \<Rightarrow> nat option" where
  "matchFragment sch state [] = Some state"
| "matchFragment sch state (name # names) =
     (case matchType sch state name of
        None \<Rightarrow> None
      | Some next \<Rightarrow> matchFragment sch next names)"

text \<open>
  \<open>parent.canReplace(from, to, replacement)\<close>: the content expression of the parent accepts
  the children before index \<open>from\<close>, then the replacement, then the children from index \<open>to\<close>
  on, and may end there.
\<close>

definition canReplace :: "Schema \<Rightarrow> string \<Rightarrow> string list \<Rightarrow> string list \<Rightarrow> string list \<Rightarrow> bool" where
  "canReplace sch parent preceding replacement following =
     (case matchFragment sch (contentMatch sch parent) (preceding @ replacement @ following) of
        None \<Rightarrow> False
      | Some state \<Rightarrow> validEnd sch state)"

text \<open>
  \<open>fitsTrivially\<close> of the library: both ends of the range lie in the same parent and
  \<open>$from.parent.canReplace($from.index(), $to.index(), content)\<close> holds. It is decided here
  for a parent that holds inline content only: the tokens from the start token of the parent
  to its end token are characters and leaves. A position inside a text node has the index of
  that node, so the text node a range starts in is not among the children before it, and
  the text node it ends in is among the children after it. For any other parent the
  definition answers no, which leaves the replacement to the fitting of the library, below.
\<close>

definition fitsTrivially :: "Schema \<Rightarrow> token list \<Rightarrow> nat \<Rightarrow> nat \<Rightarrow> token list \<Rightarrow> bool" where
  "fitsTrivially sch d from_pos to_pos content =
     (from_pos \<le> to_pos \<and> to_pos \<le> length d
      \<and> list_all inline (take (to_pos - from_pos) (drop from_pos d))
      \<and> list_all inline content
      \<and> (let preceding = inline_before d from_pos; following = inline_after d to_pos in
           length preceding < from_pos
           \<and> to_pos + length following < length d
           \<and> d ! (to_pos + length following) = Close
           \<and> (case d ! (from_pos - length preceding - 1) of
                Open parent \<Rightarrow>
                  canReplace sch parent
                    (child_types (if is_text (d ! from_pos)
                                  then rev (dropWhile is_text (rev preceding)) else preceding))
                    (child_types content)
                    (child_types following)
              | _ \<Rightarrow> False)))"

text \<open>
  \<open>insertContentAt(range, content)\<close> of the editor core creates the nodes, replaces the range
  by them (\<open>tr.replaceWith\<close>) and puts the cursor at the end of what it inserted. A position
  outside the document raises a RangeError. Where the content fits trivially the library
  replaces by a plain step: the tokens of the range give way to the content. Everywhere else
  the fitting algorithm of the library decides the new document and the selection; it is not
  among the sources and is the parameter \<open>fit\<close>.
\<close>

type_synonym fitter = "EditorState \<Rightarrow> suggestion_range \<Rightarrow> token list \<Rightarrow> error + EditorState"

definition insertContentAt ::
  "fitter \<Rightarrow> EditorState \<Rightarrow> suggestion_range \<Rightarrow> token list \<Rightarrow> error + EditorState" where
  "insertContentAt fit st rng content =
     (let from_pos = range_from rng; to_pos = range_to rng;
          nodes = createNodeFromContent content in
      if from_pos > length (doc st) \<or> to_pos > length (doc st) then Inl RangeError
      else if fitsTrivially (schema st) (doc st) from_pos to_pos nodes then
        Inr (st \<lparr> doc := take from_pos (doc st) @ nodes @ drop to_pos (doc st),
                  anchor := from_pos + length nodes,
                  head := from_pos + length nodes \<rparr>)
      else fit st rng nodes)"

text \<open>
  \<open>window.getSelection()?.collapseToEnd()\<close>: the selection of the page follows the
  selection of the editor state; it collapses to its end.
\<close>

definition collapseToEnd :: "EditorState \<Rightarrow> EditorState" where
  "collapseToEnd st =
     st \<lparr> anchor := max (anchor st) (head st), head := max (anchor st) (head st) \<rparr>"

section \<open>The suggestion\<close>

definition startsWith :: "string \<Rightarrow> string \<Rightarrow> bool" where
  "startsWith text s = (take (length s) text = s)"

text \<open>
  \<open>suggestion.command\<close>: \<open>nodeAfter?.text?.startsWith(" ")\<close> is undefined, hence falsy, when
  there is no node after the end of the selection or the node is not a text node. The first
  argument is the fitting of the library that \<open>insertContentAt\<close> rests on.
\<close>

definition command ::
  "fitter \<Rightarrow> EditorState \<Rightarrow> suggestion_range \<Rightarrow> MentionNodeAttrs \<Rightarrow> error + EditorState" where
  "command fit st rng props =
     (let after = nodeAfter (doc st) (max (anchor st) (head st));
          overrideSpace = (case after of
                             Some (TextNode text) \<Rightarrow> startsWith text '' ''
                           | _ \<Rightarrow> False);
          rng' = (if overrideSpace then rng \<lparr> range_to := range_to rng + 1 \<rparr> else rng)
      in case insertContentAt fit st rng' [Leaf ''mention'' props, Chr CHR '' ''] of
           Inl e \<Rightarrow> Inl e
         | Inr st' \<Rightarrow> Inr (collapseToEnd st'))"

text \<open>\<open>suggestion.allow\<close>; \<open>!!m\<close> is false exactly when \<open>m\<close> is null.\<close>

definition allow :: "EditorState \<Rightarrow> suggestion_range \<Rightarrow> error + bool" where
  "allow st rng =
     (case resolve_parent (doc st) (range_from rng) of
        Inl e \<Rightarrow> Inl e
      | Inr parent \<Rightarrow>
          Inr (matchType (schema st) (contentMatch (schema st) parent) ''mention'' \<noteq> None))"

text \<open>
  Modelled from the spec: the suggestion plugin (package \<open>@tiptap/suggestion\<close>) that opens
  the popup is not among the sources. Section 4.2: the popup is Closed or Open, and Open is
  entered when the trigger character is typed at a position that permits the mention node
  type, which the plugin asks of \<open>allow\<close>.
\<close>

datatype popup = PopupClosed | PopupOpen

definition popup_on_trigger :: "EditorState \<Rightarrow> suggestion_range \<Rightarrow> popup" where
  "popup_on_trigger st rng =
     (case allow st rng of Inr True \<Rightarrow> PopupOpen | _ \<Rightarrow> PopupClosed)"

section \<open>The Backspace shortcut\<close>

text \<open>\<open>this.options.suggestion.char || ""\<close>.\<close>

definition char_or_empty :: "js_val \<Rightarrow> string" where
  "char_or_empty c = (if truthy c then template c else [])"

text \<open>
  The command returns \<open>isMention\<close>; the transaction is dispatched with the steps the
  callback added to it.
\<close>

definition Backspace :: "mention_options \<Rightarrow> EditorState \<Rightarrow> bool \<times> EditorState" where
  "Backspace opts st =
     (if anchor st \<noteq> head st then (False, st)
      else
        fold (\<lambda>(n, pos) (isMention, tr).
                if type_name n = ''mention'' then
                  (True,
                   insertText tr
                     (if deleteTriggerWithBackspace opts then []
                      else char_or_empty (suggestion_char opts))
                     pos (pos + nodeSize n))
                else (isMention, tr))
          (nodesBetween (doc st) (int (anchor st) - 1) (int (anchor st)))
          (False, st))"

section \<open>Refreshing the labels\<close>

text \<open>
  Modelled from the spec: \<open>getAllNodesWithType\<close> of \<open>@/utils/tiptap\<close> is not among the
  sources. Section 4.3 has the refresher walk all mention nodes in the document; the disabled
  code reads \<open>id\<close>, \<open>label\<close> and \<open>pos\<close> of what the walk returns. The walk reads the document
  and changes nothing.
\<close>

definition getAllNodesWithType :: "EditorState \<Rightarrow> string \<Rightarrow> (MentionNodeAttrs \<times> nat) list" where
  "getAllNodesWithType editor name =
     concat (map (\<lambda>pos. case doc editor ! pos of
                          Leaf t a \<Rightarrow> (if t = name then [(a, pos)] else [])
                        | _ \<Rightarrow> [])
               [0 ..< length (doc editor)])"

text \<open>
  \<open>updateMentionNodeNames\<close>: what is left of its body collects the mention nodes; the lookup
  and the update of the labels are commented out.
\<close>

definition updateMentionNodeNames :: "EditorState \<Rightarrow> EditorState" where
  "updateMentionNodeNames editor =
     (let mentions = getAllNodesWithType editor ''mention'' in editor)"

section \<open>Reading documents and rendered elements\<close>

text \<open>The tag and an attribute of a rendered element; a bare string has neither.\<close>

fun dom_tag :: "DOMOutputSpec \<Rightarrow> string option" where
  "dom_tag (DomString s) = None"
| "dom_tag (DomElem tag as cs) = Some tag"

fun dom_attribute :: "DOMOutputSpec \<Rightarrow> string \<Rightarrow> string option" where
  "dom_attribute (DomString s) key = None"
| "dom_attribute (DomElem tag as cs) key = map_of as key"

text \<open>The token at a position is a space character.\<close>

definition space_at :: "token list \<Rightarrow> nat \<Rightarrow> bool" where
  "space_at d pos = (pos < length d \<and> d ! pos = Chr CHR '' '')"

text \<open>
  A small schema for the examples: the document holds paragraphs and code blocks, a
  paragraph holds text and mentions, a code block holds text only.
\<close>

definition example_schema :: Schema where
  "example_schema =
     \<lparr> contentMatch =
         (\<lambda>name. if name = ''doc'' then 0 else if name = ''paragraph'' then 1 else 2),
       matchType =
         (\<lambda>state name.
            if state = 0 \<and> (name = ''paragraph'' \<or> name = ''codeBlock'') then Some 0
            else if state = 1 \<and> (name = ''text'' \<or> name = ''mention'') then Some 1
            else if state = 2 \<and> name = ''text'' then Some 2
            else None),
       validEnd = (\<lambda>state. True) \<rparr>"

section \<open>Facts about mergeAttributes\<close>

lemma dom_merge_entry: "fst ` set (merge_entry m kv) = insert (fst kv) (fst ` set m)"
  by (simp add: merge_entry_def dom_update)

lemma map_of_merge_entry_other: "k \<noteq> fst kv \<Longrightarrow> map_of (merge_entry m kv) k = map_of m k"
  by (simp add: merge_entry_def update_conv')

lemma dom_merge_item:
  "fst ` set (fold (\<lambda>kv merged. merge_entry merged kv) item m) = fst ` set item \<union> fst ` set m"
  by (induction item arbitrary: m) (auto simp: dom_merge_entry)

lemma map_of_merge_item_other:
  "k \<notin> fst ` set item \<Longrightarrow>
   map_of (fold (\<lambda>kv merged. merge_entry merged kv) item m) k = map_of m k"
  by (induction item arbitrary: m) (auto simp: map_of_merge_entry_other)

lemma dom_merge_objects:
  "fst ` set (fold (\<lambda>item items. fold (\<lambda>kv merged. merge_entry merged kv) item items) objects m)
     = (\<Union>item \<in> set objects. fst ` set item) \<union> fst ` set m"
  by (induction objects arbitrary: m) (auto simp: dom_merge_item)

lemma map_of_merge_objects_other:
  "\<forall>item \<in> set objects. k \<notin> fst ` set item \<Longrightarrow>
   map_of (fold (\<lambda>item items. fold (\<lambda>kv merged. merge_entry merged kv) item items) objects m) k
     = map_of m k"
  by (induction objects arbitrary: m) (auto simp: map_of_merge_item_other)

text \<open>The keys of a merged object are the keys of the objects merged.\<close>

lemma dom_mergeAttributes:
  "fst ` set (mergeAttributes objects) = (\<Union>item \<in> set objects. fst ` set item)"
  by (simp add: mergeAttributes_def dom_merge_objects)

text \<open>A key that only the first object sets keeps the value it has there.\<close>

lemma map_of_mergeAttributes_first:
  "\<forall>item \<in> set objects. k \<notin> fst ` set item \<Longrightarrow>
   map_of (mergeAttributes (item # objects)) k = map_of (mergeAttributes [item]) k"
  by (simp add: mergeAttributes_def map_of_merge_objects_other)

lemma dom_id_renderHTML: "fst ` set (id_renderHTML n) \<subseteq> {''data-id''}"
  by (simp add: id_renderHTML_def)

lemma dom_label_renderHTML: "fst ` set (label_renderHTML n) \<subseteq> {''data-label''}"
  by (simp add: label_renderHTML_def)

lemma dom_getRenderedAttributes:
  "fst ` set (getRenderedAttributes n)
     = fst ` set (id_renderHTML n) \<union> fst ` set (label_renderHTML n)"
  by (simp add: getRenderedAttributes_def dom_mergeAttributes)

text \<open>
  What the node type renders when \<open>renderLabel\<close> is not supplied and \<open>renderHTML\<close> is the
  default, and what it renders when \<open>renderLabel\<close> is supplied.
\<close>

lemma Mention_renderHTML_default:
  assumes "renderLabel opts = None" and "renderHTML opts = addOptions_renderHTML"
  shows "Mention_renderHTML opts n attrs out =
    (DomElem ''a''
       (mergeAttributes
          [[(''class'', ''mention''), (''href'', getHrefFromNode n)],
           HTMLAttributes opts,
           mergeAttributes [[(''data-type'', ''mention'')], HTMLAttributes opts, attrs]])
       [DomString (template (suggestion_char opts)
          @ template (nullish (attrs_label n) (attrs_id n)))],
     out)"
  using assms
  by (simp add: Mention_renderHTML_def addOptions_renderHTML_def option_values.truncate_def)

lemma Mention_renderHTML_renderLabel:
  assumes "renderLabel opts = Some f"
  shows "Mention_renderHTML opts n attrs out =
    (DomElem ''a''
       (mergeAttributes [[(''data-type'', ''mention'')], HTMLAttributes opts, attrs])
       [DomString (f \<lparr> options = option_values.truncate opts, node = n \<rparr>)],
     out @ [deprecation_warning])"
  using assms by (simp add: Mention_renderHTML_def)

section \<open>The text of a mention\<close>

text \<open>
  C1. The default \<open>renderText\<close> returns the trigger character followed by the label of the
  node when the label is a string, and followed by the id when the label is null or undefined.
  With the options of \<open>addOptions\<close> the node type's \<open>renderText\<close> returns that text with
  \<open>@\<close> as the trigger character, and writes nothing to the console.
\<close>

theorem renderText_default:
  "addOptions_renderText \<lparr> options = ov, node = n \<rparr> =
     template (suggestion_char ov)
       @ (case attrs_label n of JStr l \<Rightarrow> l | _ \<Rightarrow> template (attrs_id n))
   \<and> Mention_renderText addOptions n out =
     (''@'' @ (case attrs_label n of JStr l \<Rightarrow> l | _ \<Rightarrow> template (attrs_id n)), out)"
  by (cases "attrs_label n")
     (simp_all add: Mention_renderText_def addOptions_def addOptions_renderText_def
        option_values.truncate_def)

theorem renderText_default_witness:
  "Mention_renderText addOptions \<lparr> attrs_id = JStr ''doc123'', attrs_label = JStr ''Label'' \<rparr> []
     = (''@Label'', [])
   \<and> Mention_renderText addOptions \<lparr> attrs_id = JStr ''doc123'', attrs_label = JNull \<rparr> []
     = (''@doc123'', [])"
  using
    renderText_default
      [of undefined "\<lparr> attrs_id = JStr ''doc123'', attrs_label = JStr ''Label'' \<rparr>" "[]"]
    renderText_default
      [of undefined "\<lparr> attrs_id = JStr ''doc123'', attrs_label = JNull \<rparr>" "[]"]
  by simp

section \<open>Markdown\<close>

text \<open>
  C5. Serializing a mention node to markdown writes, after what was written before, exactly
  \<open>[@\<close> text \<open>](/thoughts/\<close> id \<open>)\<close>, where the text is the label when the label is a string
  and the id when the label is null or undefined. The parse specification of the markdown
  storage has no rule.
\<close>

theorem markdown_serialize_format:
  "markdown_serialize state n =
     state @ ''[@'' @ (case attrs_label n of JStr l \<Rightarrow> l | _ \<Rightarrow> template (attrs_id n))
       @ ''](/thoughts/'' @ template (attrs_id n) @ '')''
   \<and> markdown_parse = []"
  by (cases "attrs_label n")
     (simp_all add: markdown_serialize_def getHrefFromNode_def markdown_parse_def)

theorem markdown_serialize_format_witness:
  "markdown_serialize [] \<lparr> attrs_id = JStr ''doc123'', attrs_label = JStr ''Label'' \<rparr>
     = ''[@Label](/thoughts/doc123)''
   \<and> markdown_serialize [] \<lparr> attrs_id = JStr ''doc123'', attrs_label = JNull \<rparr>
     = ''[@doc123](/thoughts/doc123)''
   \<and> markdown_serialize ''see '' \<lparr> attrs_id = JStr ''doc123'', attrs_label = JUndefined \<rparr>
     = ''see [@doc123](/thoughts/doc123)''
   \<and> markdown_parse = []"
  using
    markdown_serialize_format
      [of "[]" "\<lparr> attrs_id = JStr ''doc123'', attrs_label = JStr ''Label'' \<rparr>"]
    markdown_serialize_format
      [of "[]" "\<lparr> attrs_id = JStr ''doc123'', attrs_label = JNull \<rparr>"]
    markdown_serialize_format
      [of "''see ''" "\<lparr> attrs_id = JStr ''doc123'', attrs_label = JUndefined \<rparr>"]
  by simp

section \<open>The markup of a mention\<close>

text \<open>
  C6. For a mention node whose id and label are non-empty strings, under the default
  \<open>renderHTML\<close>, without \<open>renderLabel\<close> and with no configured \<open>HTMLAttributes\<close>, the markup
  is an \<open>a\<close> element with class \<open>mention\<close>, \<open>data-type\<close> \<open>mention\<close>, \<open>data-id\<close> the id and
  \<open>data-label\<close> the label, whose content is the trigger character followed by the label. The
  element also carries the \<open>href\<close> of the node.
\<close>

theorem default_markup:
  assumes "renderLabel opts = None" and "renderHTML opts = addOptions_renderHTML"
    and "HTMLAttributes opts = []"
    and "attrs_id n = JStr i" and "i \<noteq> []" and "attrs_label n = JStr l" and "l \<noteq> []"
  shows "serialize_markup opts n out =
    (DomElem ''a''
       [(''class'', ''mention''), (''href'', ''/thoughts/'' @ i), (''data-type'', ''mention''),
        (''data-id'', i), (''data-label'', l)]
       [DomString (template (suggestion_char opts) @ l)],
     out)"
  using assms
  by (simp add: serialize_markup_def Mention_renderHTML_default getRenderedAttributes_def
        id_renderHTML_def label_renderHTML_def mergeAttributes_def merge_entry_def
        merge_value_def getHrefFromNode_def)

theorem default_markup_witness:
  "serialize_markup addOptions \<lparr> attrs_id = JStr ''doc123'', attrs_label = JStr ''Label'' \<rparr> [] =
    (DomElem ''a''
       [(''class'', ''mention''), (''href'', ''/thoughts/doc123''), (''data-type'', ''mention''),
        (''data-id'', ''doc123''), (''data-label'', ''Label'')]
       [DomString ''@Label''],
     [])"
  using default_markup
    [of addOptions "\<lparr> attrs_id = JStr ''doc123'', attrs_label = JStr ''Label'' \<rparr>"
      "''doc123''" "''Label''" "[]"]
  by (simp add: addOptions_def)

text \<open>
  C7, as stated, fails for a \<open>renderHTML\<close> supplied by the user: the node type returns what
  that function returns, here a \<open>span\<close> without any \<open>href\<close>.
\<close>

theorem custom_renderHTML_counterexample:
  "serialize_markup
     (addOptions \<lparr> renderHTML := (\<lambda>this p. DomElem ''span'' [] [DomString ''mention'']) \<rparr>)
     \<lparr> attrs_id = JStr ''doc123'', attrs_label = JNull \<rparr> []
   = (DomElem ''span'' [] [DomString ''mention''], [])"
  by (simp add: serialize_markup_def Mention_renderHTML_def addOptions_def)

text \<open>
  C7, amended. Under the default \<open>renderHTML\<close>, without \<open>renderLabel\<close> and with no \<open>href\<close>
  among the configured \<open>HTMLAttributes\<close>, the markup of every mention node is an \<open>a\<close> element
  whose \<open>href\<close> is \<open>/thoughts/\<close> followed by the id.
\<close>

theorem default_renderHTML_href:
  assumes "renderLabel opts = None" and "renderHTML opts = addOptions_renderHTML"
    and "''href'' \<notin> fst ` set (HTMLAttributes opts)"
  shows "dom_tag (fst (serialize_markup opts n out)) = Some ''a''
       \<and> dom_attribute (fst (serialize_markup opts n out)) ''href''
           = Some (''/thoughts/'' @ template (attrs_id n))"
proof -
  let ?inner =
    "mergeAttributes [[(''data-type'', ''mention'')], HTMLAttributes opts, getRenderedAttributes n]"
  let ?first = "[(''class'', ''mention''), (''href'', getHrefFromNode n)]"
  have rendered: "''href'' \<notin> fst ` set (getRenderedAttributes n)"
    using dom_id_renderHTML [of n] dom_label_renderHTML [of n]
    by (auto simp: dom_getRenderedAttributes)
  have inner: "''href'' \<notin> fst ` set ?inner"
    using assms(3) rendered by (simp add: dom_mergeAttributes)
  have "map_of (mergeAttributes [?first, HTMLAttributes opts, ?inner]) ''href''
          = map_of (mergeAttributes [?first]) ''href''"
    using assms(3) inner by (intro map_of_mergeAttributes_first) simp
  also have "\<dots> = Some (''/thoughts/'' @ template (attrs_id n))"
    by (simp add: mergeAttributes_def merge_entry_def merge_value_def getHrefFromNode_def)
  finally show ?thesis
    using assms(1,2) by (simp add: serialize_markup_def Mention_renderHTML_default)
qed

theorem default_renderHTML_href_witness:
  "dom_tag (fst (serialize_markup addOptions
       \<lparr> attrs_id = JStr ''doc123'', attrs_label = JNull \<rparr> [])) = Some ''a''
   \<and> dom_attribute (fst (serialize_markup addOptions
       \<lparr> attrs_id = JStr ''doc123'', attrs_label = JNull \<rparr> [])) ''href''
       = Some ''/thoughts/doc123''"
  using default_renderHTML_href
    [of addOptions "\<lparr> attrs_id = JStr ''doc123'', attrs_label = JNull \<rparr>" "[]"]
  by (simp add: addOptions_def)

text \<open>
  C8. When \<open>renderLabel\<close> is supplied, \<open>renderHTML\<close> and \<open>renderText\<close> of the node type both
  return the result of \<open>renderLabel\<close> (as the content of an \<open>a\<close> element, and as the text),
  whatever the options \<open>renderHTML\<close> and \<open>renderText\<close> are, and both add the deprecation
  warning to the console.
\<close>

theorem renderLabel_takes_precedence:
  assumes "renderLabel opts = Some f"
  shows "Mention_renderHTML opts n attrs out =
           (DomElem ''a''
              (mergeAttributes [[(''data-type'', ''mention'')], HTMLAttributes opts, attrs])
              [DomString (f \<lparr> options = option_values.truncate opts, node = n \<rparr>)],
            out @ [deprecation_warning])
       \<and> Mention_renderText opts n out =
           (f \<lparr> options = option_values.truncate opts, node = n \<rparr>, out @ [deprecation_warning])
       \<and> Mention_renderHTML (opts \<lparr> renderHTML := h \<rparr>) n attrs out
           = Mention_renderHTML opts n attrs out
       \<and> Mention_renderText (opts \<lparr> renderText := t \<rparr>) n out = Mention_renderText opts n out"
  using assms
  by (simp add: Mention_renderHTML_def Mention_renderText_def option_values.truncate_def)

theorem renderLabel_takes_precedence_witness:
  "Mention_renderHTML (addOptions \<lparr> renderLabel := Some (\<lambda>p. ''#'' @ template (attrs_id (node p))) \<rparr>)
     \<lparr> attrs_id = JStr ''doc123'', attrs_label = JStr ''Label'' \<rparr> [] []
     = (DomElem ''a'' [(''data-type'', ''mention'')] [DomString ''#doc123''], [deprecation_warning])
   \<and> Mention_renderText (addOptions \<lparr> renderLabel := Some (\<lambda>p. ''#'' @ template (attrs_id (node p))) \<rparr>)
     \<lparr> attrs_id = JStr ''doc123'', attrs_label = JStr ''Label'' \<rparr> []
     = (''#doc123'', [deprecation_warning])"
  using renderLabel_takes_precedence
    [of "addOptions \<lparr> renderLabel := Some (\<lambda>p. ''#'' @ template (attrs_id (node p))) \<rparr>"
        "\<lambda>p. ''#'' @ template (attrs_id (node p))"
        "\<lparr> attrs_id = JStr ''doc123'', attrs_label = JStr ''Label'' \<rparr>" "[]" "[]"]
  by (simp add: addOptions_def mergeAttributes_def merge_entry_def merge_value_def)

text \<open>
  C10. When the id of a mention node is null, the empty string or undefined, the \<open>id\<close>
  attribute renders to no HTML attribute, and the markup has no \<open>data-id\<close> attribute at all
  (under the default \<open>renderHTML\<close> or with \<open>renderLabel\<close>, the configured \<open>HTMLAttributes\<close> not
  setting one themselves). The same holds of the label and \<open>data-label\<close>.
\<close>

theorem falsy_attributes_are_omitted:
  assumes "renderHTML opts = addOptions_renderHTML"
    and "''data-id'' \<notin> fst ` set (HTMLAttributes opts)"
    and "''data-label'' \<notin> fst ` set (HTMLAttributes opts)"
  shows "(attrs_id n = JNull \<or> attrs_id n = JStr [] \<or> attrs_id n = JUndefined \<longrightarrow>
            id_renderHTML n = []
            \<and> dom_attribute (fst (serialize_markup opts n out)) ''data-id'' = None)
       \<and> (attrs_label n = JNull \<or> attrs_label n = JStr [] \<or> attrs_label n = JUndefined \<longrightarrow>
            label_renderHTML n = []
            \<and> dom_attribute (fst (serialize_markup opts n out)) ''data-label'' = None)"
proof -
  let ?inner =
    "mergeAttributes [[(''data-type'', ''mention'')], HTMLAttributes opts, getRenderedAttributes n]"
  let ?outer =
    "mergeAttributes
       [[(''class'', ''mention''), (''href'', getHrefFromNode n)], HTMLAttributes opts, ?inner]"
  have shape: "dom_attribute (fst (serialize_markup opts n out)) k
      = map_of (if renderLabel opts = None then ?outer else ?inner) k" for k
    using assms(1)
    by (cases "renderLabel opts")
       (simp_all add: serialize_markup_def Mention_renderHTML_default
          Mention_renderHTML_renderLabel)
  have keys: "dom_attribute (fst (serialize_markup opts n out)) k = None"
    if "k \<notin> {''class'', ''href'', ''data-type''}" and "k \<notin> fst ` set (HTMLAttributes opts)"
      and "k \<notin> fst ` set (getRenderedAttributes n)" for k
    using that unfolding shape by (auto simp: map_of_eq_None_iff dom_mergeAttributes)
  have a: "id_renderHTML n = []"
    if "attrs_id n = JNull \<or> attrs_id n = JStr [] \<or> attrs_id n = JUndefined"
    using that by (auto simp: id_renderHTML_def)
  have b: "label_renderHTML n = []"
    if "attrs_label n = JNull \<or> attrs_label n = JStr [] \<or> attrs_label n = JUndefined"
    using that by (auto simp: label_renderHTML_def)
  have a': "''data-id'' \<notin> fst ` set (getRenderedAttributes n)" if "id_renderHTML n = []"
    using that dom_label_renderHTML [of n] by (auto simp: dom_getRenderedAttributes)
  have b': "''data-label'' \<notin> fst ` set (getRenderedAttributes n)" if "label_renderHTML n = []"
    using that dom_id_renderHTML [of n] by (auto simp: dom_getRenderedAttributes)
  show ?thesis
    using a b a' b' keys [of "''data-id''"] keys [of "''data-label''"] assms(2,3) by simp
qed

theorem falsy_attributes_are_omitted_witness:
  "id_renderHTML \<lparr> attrs_id = JNull, attrs_label = JStr [] \<rparr> = []
   \<and> label_renderHTML \<lparr> attrs_id = JNull, attrs_label = JStr [] \<rparr> = []
   \<and> dom_attribute (fst (serialize_markup addOptions
         \<lparr> attrs_id = JNull, attrs_label = JStr [] \<rparr> [])) ''data-id'' = None
   \<and> dom_attribute (fst (serialize_markup addOptions
         \<lparr> attrs_id = JNull, attrs_label = JStr [] \<rparr> [])) ''data-label'' = None"
  using falsy_attributes_are_omitted
    [of addOptions "\<lparr> attrs_id = JNull, attrs_label = JStr [] \<rparr>" "[]"]
  by (simp add: addOptions_def)

section \<open>Inserting a mention\<close>

lemma overrideSpace_iff:
  "(case nodeAfter d pos of Some (TextNode text) \<Rightarrow> startsWith text '' '' | _ \<Rightarrow> False)
     = space_at d pos"
proof (cases "pos < length d")
  case False
  then show ?thesis by (simp add: nodeAfter_def space_at_def)
next
  case True
  then have "drop pos d = d ! pos # drop (Suc pos) d"
    by (simp add: Cons_nth_drop_Suc)
  then show ?thesis
    using True by (cases "d ! pos") (auto simp: nodeAfter_def space_at_def startsWith_def)
qed

text \<open>
  For every state and range the command is the insertion at the range, its end moved by
  one exactly when a space character follows the end of the selection.
\<close>

lemma command_splice:
  "command fit st rng props =
     (case insertContentAt fit st
             (rng \<lparr> range_to := (if space_at (doc st) (max (anchor st) (head st))
                                  then range_to rng + 1 else range_to rng) \<rparr>)
             [Leaf ''mention'' props, Chr CHR '' ''] of
        Inl e \<Rightarrow> Inl e
      | Inr st' \<Rightarrow> Inr (collapseToEnd st'))"
  unfolding command_def Let_def overrideSpace_iff
  by (cases "space_at (doc st) (max (anchor st) (head st))") simp_all

text \<open>
  Where the content does not fit trivially (in a code block, at the level of the document,
  across the end of a node) the result of the command is what the fitting of the library
  makes of the range and the nodes.
\<close>

lemma command_leaves_other_cases_to_fit:
  assumes "range_from rng \<le> length (doc st)"
    and "(if space_at (doc st) (max (anchor st) (head st)) then Suc (range_to rng)
          else range_to rng) \<le> length (doc st)"
    and "\<not> fitsTrivially (schema st) (doc st) (range_from rng)
           (if space_at (doc st) (max (anchor st) (head st)) then Suc (range_to rng)
            else range_to rng)
           [Leaf ''mention'' (computeAttrs props), Chr CHR '' '']"
  shows "command fit st rng props =
     (case fit st
             (rng \<lparr> range_to := (if space_at (doc st) (max (anchor st) (head st))
                                  then Suc (range_to rng) else range_to rng) \<rparr>)
             [Leaf ''mention'' (computeAttrs props), Chr CHR '' ''] of
        Inl e \<Rightarrow> Inl e
      | Inr st' \<Rightarrow> Inr (collapseToEnd st'))"
  using assms
  by (cases "space_at (doc st) (max (anchor st) (head st))")
     (simp_all add: command_splice insertContentAt_def Let_def not_less [symmetric])

text \<open>
  C2, as stated, fails where the selection does not end at the end of the range. In the
  paragraph \<open>ab cd\<close> with the cursor after \<open>b\<close> and the range covering \<open>a\<close>, the node after
  the cursor starts with a space, so the range is extended over \<open>b\<close>: the mention is followed
  by two spaces and \<open>b\<close> is lost. The content fits the paragraph trivially, so the fitting of
  the library is not reached.
\<close>

theorem command_range_counterexample:
  "command undefined
     \<lparr> doc = [Open ''paragraph'', Chr CHR ''a'', Chr CHR ''b'', Chr CHR '' '',
              Chr CHR ''c'', Chr CHR ''d'', Close],
       anchor = 3, head = 3, schema = example_schema \<rparr>
     \<lparr> range_from = 1, range_to = 2 \<rparr>
     \<lparr> attrs_id = JStr ''doc123'', attrs_label = JStr ''Label'' \<rparr>
   = Inr \<lparr> doc = [Open ''paragraph'',
                  Leaf ''mention'' \<lparr> attrs_id = JStr ''doc123'', attrs_label = JStr ''Label'' \<rparr>,
                  Chr CHR '' '', Chr CHR '' '', Chr CHR ''c'', Chr CHR ''d'', Close],
           anchor = 3, head = 3, schema = example_schema \<rparr>"
  by (simp add: command_def nodeAfter_def startsWith_def insertContentAt_def collapseToEnd_def
        fitsTrivially_def inline_before_def inline_after_def canReplace_def computeAttrs_def
        example_schema_def Let_def)

text \<open>
  C2, amended. Let the selection end at the end of the range, the range not be reversed,
  and let the content fit trivially at the range the command passes on: that range covers
  characters and leaves of one textblock, whose content expression accepts the mention and
  the space in their place. Then the command replaces the range by a mention node, its
  missing attributes null, followed by one space, the range reaching one token further
  exactly when a space character follows the cursor, and leaves the cursor after the
  inserted space. What the extension consumes is that one space: the inserted space followed
  by the rest is the text that followed the cursor, so a space there is neither duplicated
  nor lost. This holds whatever the fitting of the library is.
\<close>

theorem command_consumes_one_space:
  assumes "max (anchor st) (head st) = range_to rng"
    and "range_from rng \<le> range_to rng"
    and "fitsTrivially (schema st) (doc st) (range_from rng)
           (if space_at (doc st) (range_to rng) then Suc (range_to rng) else range_to rng)
           [Leaf ''mention'' (computeAttrs props), Chr CHR '' '']"
  shows "command fit st rng props =
           Inr (st \<lparr> doc := take (range_from rng) (doc st)
                          @ [Leaf ''mention'' (computeAttrs props), Chr CHR '' '']
                          @ drop (if space_at (doc st) (range_to rng) then Suc (range_to rng)
                                  else range_to rng) (doc st),
                     anchor := range_from rng + 2,
                     head := range_from rng + 2 \<rparr>)
       \<and> (space_at (doc st) (range_to rng) \<longrightarrow>
            Chr CHR '' '' # drop (Suc (range_to rng)) (doc st) = drop (range_to rng) (doc st))"
proof -
  let ?to = "if space_at (doc st) (range_to rng) then Suc (range_to rng) else range_to rng"
  have bounds: "range_from rng \<le> ?to" "?to \<le> length (doc st)"
    using assms(3) by (simp_all add: fitsTrivially_def)
  then have inside: "\<not> (range_from rng > length (doc st) \<or> ?to > length (doc st))"
    by linarith
  have result: "command fit st rng props =
      Inr (st \<lparr> doc := take (range_from rng) (doc st)
                     @ [Leaf ''mention'' (computeAttrs props), Chr CHR '' '']
                     @ drop ?to (doc st),
                anchor := range_from rng + 2, head := range_from rng + 2 \<rparr>)"
  proof (cases "space_at (doc st) (range_to rng)")
    case True
    then show ?thesis
      using assms(1,3) inside
      by (simp add: command_splice insertContentAt_def collapseToEnd_def Let_def)
  next
    case False
    then show ?thesis
      using assms(1,3) inside
      by (simp add: command_splice insertContentAt_def collapseToEnd_def Let_def)
  qed
  have "Chr CHR '' '' # drop (Suc (range_to rng)) (doc st) = drop (range_to rng) (doc st)"
    if "space_at (doc st) (range_to rng)"
    using that by (simp add: space_at_def Cons_nth_drop_Suc [symmetric])
  with result show ?thesis by simp
qed

theorem command_consumes_one_space_witness:
  "command undefined
     \<lparr> doc = [Open ''paragraph'', Chr CHR ''@'', Chr CHR ''j'', Chr CHR ''o'', Chr CHR '' '',
              Chr CHR ''x'', Close],
       anchor = 4, head = 4, schema = example_schema \<rparr>
     \<lparr> range_from = 1, range_to = 4 \<rparr>
     \<lparr> attrs_id = JStr ''doc123'', attrs_label = JUndefined \<rparr>
   = Inr \<lparr> doc = [Open ''paragraph'',
                  Leaf ''mention'' \<lparr> attrs_id = JStr ''doc123'', attrs_label = JNull \<rparr>,
                  Chr CHR '' '', Chr CHR ''x'', Close],
           anchor = 3, head = 3, schema = example_schema \<rparr>"
proof -
  let ?st = "\<lparr> doc = [Open ''paragraph'', Chr CHR ''@'', Chr CHR ''j'', Chr CHR ''o'',
                      Chr CHR '' '', Chr CHR ''x'', Close],
               anchor = 4, head = 4, schema = example_schema \<rparr>"
  let ?rng = "\<lparr> range_from = 1, range_to = 4 \<rparr>"
  let ?props = "\<lparr> attrs_id = JStr ''doc123'', attrs_label = JUndefined \<rparr>"
  have sel: "max (anchor ?st) (head ?st) = range_to ?rng" by simp
  have ord: "range_from ?rng \<le> range_to ?rng" by simp
  have fits: "fitsTrivially (schema ?st) (doc ?st) (range_from ?rng)
      (if space_at (doc ?st) (range_to ?rng) then Suc (range_to ?rng) else range_to ?rng)
      [Leaf ''mention'' (computeAttrs ?props), Chr CHR '' '']"
    by (simp add: fitsTrivially_def space_at_def inline_before_def inline_after_def
          canReplace_def example_schema_def Let_def)
  show ?thesis
    using command_consumes_one_space [OF sel ord fits, of undefined]
    by (simp add: space_at_def computeAttrs_def)
qed

section \<open>Where the suggestion is allowed\<close>

text \<open>
  C4. At a position whose parent node's content match does not accept the mention type
  (\<open>matchType\<close> gives null), \<open>allow\<close> returns false, and the popup stays closed.
\<close>

theorem allow_false_where_schema_forbids:
  assumes "resolve_parent (doc st) (range_from rng) = Inr parent"
    and "matchType (schema st) (contentMatch (schema st) parent) ''mention'' = None"
  shows "allow st rng = Inr False \<and> popup_on_trigger st rng = PopupClosed"
  using assms by (simp add: allow_def popup_on_trigger_def)

theorem allow_false_where_schema_forbids_witness:
  "resolve_parent [Open ''codeBlock'', Chr CHR ''@'', Close] 2 = Inr ''codeBlock''
   \<and> matchType example_schema (contentMatch example_schema ''codeBlock'') ''mention'' = None
   \<and> allow \<lparr> doc = [Open ''codeBlock'', Chr CHR ''@'', Close], anchor = 2, head = 2,
              schema = example_schema \<rparr> \<lparr> range_from = 2, range_to = 2 \<rparr> = Inr False
   \<and> popup_on_trigger \<lparr> doc = [Open ''codeBlock'', Chr CHR ''@'', Close], anchor = 2, head = 2,
              schema = example_schema \<rparr> \<lparr> range_from = 2, range_to = 2 \<rparr> = PopupClosed"
proof -
  let ?st = "\<lparr> doc = [Open ''codeBlock'', Chr CHR ''@'', Close], anchor = 2, head = 2,
               schema = example_schema \<rparr>"
  let ?rng = "\<lparr> range_from = 2, range_to = 2 \<rparr>"
  have r: "resolve_parent (doc ?st) (range_from ?rng) = Inr ''codeBlock''"
    by (simp add: resolve_parent_def numeral_2_eq_2)
  have m: "matchType (schema ?st) (contentMatch (schema ?st) ''codeBlock'') ''mention'' = None"
    by (simp add: example_schema_def)
  show ?thesis
    using allow_false_where_schema_forbids [OF r m] r m by simp
qed

section \<open>Deleting a mention\<close>

lemma nodesBetween_before_cursor:
  assumes "p < length d"
  shows "nodesBetween d (int (Suc p) - 1) (int (Suc p)) =
           (case d ! p of
              Chr c \<Rightarrow> [(TextNode [c], p)]
            | Leaf name a \<Rightarrow> [(LeafNode name a, p)]
            | Open name \<Rightarrow> []
            | Close \<Rightarrow> [])"
proof -
  have "nat (max 0 (int (Suc p) - 1)) = p" by simp
  moreover have "min (nat (int (Suc p))) (length d) = Suc p" using assms by simp
  ultimately have "[nat (max 0 (int (Suc p) - 1)) ..< min (nat (int (Suc p))) (length d)] = [p]"
    by (simp del: of_nat_Suc)
  then show ?thesis unfolding nodesBetween_def by (simp del: of_nat_Suc)
qed

text \<open>
  C3. With an empty selection whose cursor is immediately after a mention node (the node
  is the token at \<open>p\<close>, the cursor is at \<open>p + 1\<close>), Backspace handles the key and replaces
  exactly that token: with \<open>deleteTriggerWithBackspace\<close> the node is removed, without it the
  node is replaced by the trigger character. Every other token of the document is kept.
\<close>

theorem Backspace_after_mention:
  assumes "anchor st = head st" and "anchor st = Suc p" and "p < length (doc st)"
    and "doc st ! p = Leaf ''mention'' a"
  shows "(deleteTriggerWithBackspace opts \<longrightarrow>
            Backspace opts st =
              (True, st \<lparr> doc := take p (doc st) @ drop (Suc p) (doc st),
                          anchor := p, head := p \<rparr>))
       \<and> (\<not> deleteTriggerWithBackspace opts \<longrightarrow>
            Backspace opts st =
              (True, st \<lparr> doc := take p (doc st)
                                 @ map Chr (char_or_empty (suggestion_char opts))
                                 @ drop (Suc p) (doc st),
                          anchor := p + length (char_or_empty (suggestion_char opts)),
                          head := p + length (char_or_empty (suggestion_char opts)) \<rparr>))"
proof -
  have "nodesBetween (doc st) (int (anchor st) - 1) (int (anchor st))
          = [(LeafNode ''mention'' a, p)]"
    using assms(3,4) unfolding assms(2) by (simp add: nodesBetween_before_cursor del: of_nat_Suc)
  then have "Backspace opts st =
      (True, insertText st (if deleteTriggerWithBackspace opts then []
                            else char_or_empty (suggestion_char opts)) p (Suc p))"
    using assms(1) by (simp add: Backspace_def)
  moreover have "anchor st = Suc p" "head st = Suc p" using assms(1,2) by simp_all
  ultimately show ?thesis
    by (simp add: insertText_def map_pos_def)
qed

theorem Backspace_after_mention_witness:
  "Backspace addOptions
     \<lparr> doc = [Open ''paragraph'', Chr CHR ''a'',
              Leaf ''mention'' \<lparr> attrs_id = JStr ''doc123'', attrs_label = JNull \<rparr>,
              Chr CHR ''b'', Close],
       anchor = 3, head = 3, schema = example_schema \<rparr>
   = (True, \<lparr> doc = [Open ''paragraph'', Chr CHR ''a'', Chr CHR ''@'', Chr CHR ''b'', Close],
              anchor = 3, head = 3, schema = example_schema \<rparr>)
   \<and> Backspace (addOptions \<lparr> deleteTriggerWithBackspace := True \<rparr>)
     \<lparr> doc = [Open ''paragraph'', Chr CHR ''a'',
              Leaf ''mention'' \<lparr> attrs_id = JStr ''doc123'', attrs_label = JNull \<rparr>,
              Chr CHR ''b'', Close],
       anchor = 3, head = 3, schema = example_schema \<rparr>
   = (True, \<lparr> doc = [Open ''paragraph'', Chr CHR ''a'', Chr CHR ''b'', Close],
              anchor = 2, head = 2, schema = example_schema \<rparr>)"
  using
    Backspace_after_mention
      [of "\<lparr> doc = [Open ''paragraph'', Chr CHR ''a'',
                    Leaf ''mention'' \<lparr> attrs_id = JStr ''doc123'', attrs_label = JNull \<rparr>,
                    Chr CHR ''b'', Close],
             anchor = 3, head = 3, schema = example_schema \<rparr>" 2
          "\<lparr> attrs_id = JStr ''doc123'', attrs_label = JNull \<rparr>" addOptions]
    Backspace_after_mention
      [of "\<lparr> doc = [Open ''paragraph'', Chr CHR ''a'',
                    Leaf ''mention'' \<lparr> attrs_id = JStr ''doc123'', attrs_label = JNull \<rparr>,
                    Chr CHR ''b'', Close],
             anchor = 3, head = 3, schema = example_schema \<rparr>" 2
          "\<lparr> attrs_id = JStr ''doc123'', attrs_label = JNull \<rparr>"
          "addOptions \<lparr> deleteTriggerWithBackspace := True \<rparr>"]
  by (simp add: addOptions_def char_or_empty_def numeral_2_eq_2)

section \<open>The label refresher\<close>

text \<open>
  C9. \<open>updateMentionNodeNames\<close> returns the editor state it was given: the document, and
  with it the id and the label of every mention node, is unchanged.
\<close>

theorem updateMentionNodeNames_changes_nothing:
  "updateMentionNodeNames editor = editor
   \<and> getAllNodesWithType (updateMentionNodeNames editor) ''mention''
       = getAllNodesWithType editor ''mention''"
  by (simp add: updateMentionNodeNames_def)

theorem updateMentionNodeNames_changes_nothing_witness:
  "updateMentionNodeNames
     \<lparr> doc = [Open ''paragraph'', Chr CHR ''a'',
              Leaf ''mention'' \<lparr> attrs_id = JStr ''doc123'', attrs_label = JStr ''Label'' \<rparr>, Close],
       anchor = 3, head = 3, schema = example_schema \<rparr>
   = \<lparr> doc = [Open ''paragraph'', Chr CHR ''a'',
              Leaf ''mention'' \<lparr> attrs_id = JStr ''doc123'', attrs_label = JStr ''Label'' \<rparr>, Close],
       anchor = 3, head = 3, schema = example_schema \<rparr>"
  using updateMentionNodeNames_changes_nothing
    [of "\<lparr> doc = [Open ''paragraph'', Chr CHR ''a'',
              Leaf ''mention'' \<lparr> attrs_id = JStr ''doc123'', attrs_label = JStr ''Label'' \<rparr>, Close],
       anchor = 3, head = 3, schema = example_schema \<rparr>"]
  by simp

section \<open>Further properties\<close>

text \<open>
  With \<open>renderLabel\<close> supplied the markup is an \<open>a\<close> element as well, but nothing gives it
  an \<open>href\<close>: it has one only if the configured \<open>HTMLAttributes\<close> set it.
\<close>

theorem renderLabel_markup_has_no_href:
  assumes "renderLabel opts = Some f" and "''href'' \<notin> fst ` set (HTMLAttributes opts)"
  shows "dom_tag (fst (serialize_markup opts n out)) = Some ''a''
       \<and> dom_attribute (fst (serialize_markup opts n out)) ''href'' = None"
proof -
  have "''href'' \<notin> fst ` set (getRenderedAttributes n)"
    using dom_id_renderHTML [of n] dom_label_renderHTML [of n]
    by (auto simp: dom_getRenderedAttributes)
  then have "''href'' \<notin> fst ` set (mergeAttributes
      [[(''data-type'', ''mention'')], HTMLAttributes opts, getRenderedAttributes n])"
    using assms(2) by (simp add: dom_mergeAttributes)
  then show ?thesis
    using assms(1)
    by (simp add: serialize_markup_def Mention_renderHTML_renderLabel map_of_eq_None_iff)
qed

theorem renderLabel_markup_has_no_href_witness:
  "serialize_markup (addOptions \<lparr> renderLabel := Some (\<lambda>p. ''label'') \<rparr>)
     \<lparr> attrs_id = JStr ''doc123'', attrs_label = JNull \<rparr> []
     = (DomElem ''a'' [(''data-type'', ''mention''), (''data-id'', ''doc123'')]
          [DomString ''label''],
        [deprecation_warning])
   \<and> dom_attribute (fst (serialize_markup (addOptions \<lparr> renderLabel := Some (\<lambda>p. ''label'') \<rparr>)
        \<lparr> attrs_id = JStr ''doc123'', attrs_label = JNull \<rparr> [])) ''href'' = None"
  using renderLabel_markup_has_no_href
    [of "addOptions \<lparr> renderLabel := Some (\<lambda>p. ''label'') \<rparr>" "\<lambda>p. ''label''"
        "\<lparr> attrs_id = JStr ''doc123'', attrs_label = JNull \<rparr>" "[]"]
  by (simp add: serialize_markup_def Mention_renderHTML_renderLabel addOptions_def
        getRenderedAttributes_def id_renderHTML_def label_renderHTML_def mergeAttributes_def
        merge_entry_def merge_value_def)

text \<open>
  A string returned by a \<open>renderHTML\<close> of the user is wrapped in an \<open>a\<close> element that
  carries the \<open>data-type\<close> and the rendered attributes.
\<close>

theorem string_renderHTML_is_wrapped:
  assumes "renderLabel opts = None"
    and "renderHTML opts (option_values.truncate opts)
           \<lparr> options = (option_values.truncate opts)
                \<lparr> HTMLAttributes :=
                    mergeAttributes [[(''data-type'', ''mention'')], HTMLAttributes opts, attrs] \<rparr>,
             node = n \<rparr> = DomString s"
  shows "Mention_renderHTML opts n attrs out =
           (DomElem ''a''
              (mergeAttributes [[(''data-type'', ''mention'')], HTMLAttributes opts, attrs])
              [DomString s],
            out)"
  using assms by (simp add: Mention_renderHTML_def)

theorem string_renderHTML_is_wrapped_witness:
  "Mention_renderHTML (addOptions \<lparr> renderHTML := (\<lambda>this p. DomString ''text'') \<rparr>)
     \<lparr> attrs_id = JStr ''doc123'', attrs_label = JNull \<rparr> [(''data-id'', ''doc123'')] []
   = (DomElem ''a'' [(''data-type'', ''mention''), (''data-id'', ''doc123'')] [DomString ''text''],
      [])"
  using string_renderHTML_is_wrapped
    [of "addOptions \<lparr> renderHTML := (\<lambda>this p. DomString ''text'') \<rparr>"
        "[(''data-id'', ''doc123'')]" "\<lparr> attrs_id = JStr ''doc123'', attrs_label = JNull \<rparr>"
        "''text''" "[]"]
  by (simp add: addOptions_def mergeAttributes_def merge_entry_def merge_value_def)

text \<open>
  Backspace leaves the key to the editor, and the state as it is, when the selection is not
  empty, when the cursor is at position 0, and when the token before the cursor is not a
  mention node.
\<close>

theorem Backspace_elsewhere:
  assumes "anchor st \<noteq> head st \<or> anchor st = 0
           \<or> (anchor st \<le> length (doc st)
               \<and> (case doc st ! (anchor st - 1) of Leaf name a \<Rightarrow> name \<noteq> ''mention'' | _ \<Rightarrow> True))"
  shows "Backspace opts st = (False, st)"
proof (cases "anchor st \<noteq> head st")
  case True
  then show ?thesis by (simp add: Backspace_def)
next
  case eq: False
  show ?thesis
  proof (cases "anchor st")
    case 0
    then show ?thesis by (simp add: Backspace_def nodesBetween_def)
  next
    case (Suc p)
    then have p: "p < length (doc st)"
      and t: "(case doc st ! p of Leaf name a \<Rightarrow> name \<noteq> ''mention'' | _ \<Rightarrow> True)"
      using assms eq by auto
    have "nodesBetween (doc st) (int (anchor st) - 1) (int (anchor st)) =
        (case doc st ! p of
           Chr c \<Rightarrow> [(TextNode [c], p)]
         | Leaf name a \<Rightarrow> [(LeafNode name a, p)]
         | Open name \<Rightarrow> []
         | Close \<Rightarrow> [])"
      using p unfolding Suc by (simp add: nodesBetween_before_cursor del: of_nat_Suc)
    then show ?thesis
      using t eq by (cases "doc st ! p") (simp_all add: Backspace_def)
  qed
qed

theorem Backspace_elsewhere_witness:
  "Backspace addOptions
     \<lparr> doc = [Open ''paragraph'', Chr CHR ''a'',
              Leaf ''mention'' \<lparr> attrs_id = JStr ''doc123'', attrs_label = JNull \<rparr>,
              Chr CHR ''b'', Close],
       anchor = 2, head = 2, schema = example_schema \<rparr>
   = (False,
      \<lparr> doc = [Open ''paragraph'', Chr CHR ''a'',
              Leaf ''mention'' \<lparr> attrs_id = JStr ''doc123'', attrs_label = JNull \<rparr>,
              Chr CHR ''b'', Close],
       anchor = 2, head = 2, schema = example_schema \<rparr>)"
  using Backspace_elsewhere
    [of "\<lparr> doc = [Open ''paragraph'', Chr CHR ''a'',
              Leaf ''mention'' \<lparr> attrs_id = JStr ''doc123'', attrs_label = JNull \<rparr>,
              Chr CHR ''b'', Close],
       anchor = 2, head = 2, schema = example_schema \<rparr>" addOptions]
  by simp

text \<open>
  \<open>allow\<close> returns true exactly where the parent's content match accepts the mention type,
  and raises the RangeError of \<open>resolve\<close> for a position outside the document.
\<close>

theorem allow_result:
  "allow st rng =
     (if range_from rng > length (doc st) then Inl RangeError
      else Inr (matchType (schema st)
                  (contentMatch (schema st)
                     (case open_nodes (take (range_from rng) (doc st)) [] of
                        [] \<Rightarrow> ''doc'' | name # outer \<Rightarrow> name))
                  ''mention'' \<noteq> None))"
  by (simp add: allow_def resolve_parent_def)

theorem allow_result_witness:
  "allow \<lparr> doc = [Open ''paragraph'', Chr CHR ''@'', Close], anchor = 2, head = 2,
            schema = example_schema \<rparr> \<lparr> range_from = 1, range_to = 2 \<rparr> = Inr True
   \<and> allow \<lparr> doc = [Open ''paragraph'', Chr CHR ''@'', Close], anchor = 2, head = 2,
            schema = example_schema \<rparr> \<lparr> range_from = 4, range_to = 4 \<rparr> = Inl RangeError"
  using
    allow_result [of "\<lparr> doc = [Open ''paragraph'', Chr CHR ''@'', Close], anchor = 2, head = 2,
            schema = example_schema \<rparr>" "\<lparr> range_from = 1, range_to = 2 \<rparr>"]
    allow_result [of "\<lparr> doc = [Open ''paragraph'', Chr CHR ''@'', Close], anchor = 2, head = 2,
            schema = example_schema \<rparr>" "\<lparr> range_from = 4, range_to = 4 \<rparr>"]
  by (simp add: example_schema_def)

end
